theory Spec2Isabelle
  imports Main
begin

section \<open>Grouping of API declarations (kbn-docs-utils, api_docs/utils.ts)\<close>

subsection \<open>Data model\<close>

text \<open>
  Modelled from the spec: the module \<^verbatim>\<open>./types\<close> that utils.ts imports
  \<^verbatim>\<open>TypeKind\<close>, \<^verbatim>\<open>Lifecycle\<close>, \<^verbatim>\<open>ApiDeclaration\<close> and \<^verbatim>\<open>ScopeApi\<close> from is not among
  the sources. The enum members are the ones utils.ts names
  (\<^verbatim>\<open>TypeKind.ClassKind\<close>, ..., \<^verbatim>\<open>Lifecycle.SETUP\<close>, \<^verbatim>\<open>Lifecycle.START\<close>); every
  other type tag ("or other" in the spec) is \<open>OtherKind\<close> with its name.
\<close>

datatype TypeKind =
  ClassKind | InterfaceKind | EnumKind | FunctionKind | ObjectKind | OtherKind string

text \<open>
  Modelled from the spec: the enum \<^verbatim>\<open>Lifecycle\<close> of the same module, with the two members
  utils.ts compares against; a declaration with neither has no \<^verbatim>\<open>lifecycle\<close> property.
\<close>

datatype Lifecycle = SETUP | START

text \<open>
  Modelled from the spec: a declaration carries a type tag, a lifecycle tag and a
  payload that is passed through untouched (its \<^verbatim>\<open>label\<close>, which utils.ts reads in
  \<^verbatim>\<open>apiItemExists\<close>). An absent property (\<^verbatim>\<open>undefined\<close>) is \<open>None\<close>.
\<close>

record ApiDeclaration =
  label :: string
  type :: "TypeKind option"
  lifecycle :: "Lifecycle option"

text \<open>
  Modelled from the spec: the scope has two optional slots and six sequences. The field
  names are the ones utils.ts uses, in the order of the object literal of
  \<^verbatim>\<open>createEmptyScope\<close>. The type parameter is what an array-valued property holds:
  the sequence itself (\<open>ScopeApi\<close>, the scope as a value) or the address of an array in
  a store (\<open>ScopeObj\<close>, the scope as the JavaScript object it is).
\<close>

record 'arr ScopeApi_of =
  "setup" :: "ApiDeclaration option"
  start :: "ApiDeclaration option"
  classes :: 'arr
  "functions" :: 'arr
  interfaces :: 'arr
  enums :: 'arr
  misc :: 'arr
  objects :: 'arr

type_synonym ScopeApi = "ApiDeclaration list ScopeApi_of"

subsection \<open>The operations, with the scope passed as a value\<close>

text \<open>
  \<^verbatim>\<open>createEmptyScope\<close> returns an object literal with six empty arrays; \<^verbatim>\<open>setup\<close> and
  \<^verbatim>\<open>start\<close> are not among its properties.
\<close>

definition createEmptyScope :: ScopeApi where
  "createEmptyScope =
     \<lparr>setup = None, start = None,
      classes = [], functions = [], interfaces = [], enums = [], misc = [], objects = []\<rparr>"

text \<open>
  \<^verbatim>\<open>addApiDeclarationToScope\<close> returns nothing and writes to its \<^verbatim>\<open>scope\<close> argument; here it
  returns the scope after the call. \<^verbatim>\<open>push\<close> appends at the end. Every \<^verbatim>\<open>case\<close> of the
  \<^verbatim>\<open>switch\<close> ends in \<^verbatim>\<open>break\<close>, so exactly one branch runs.

  The six sequences of the scope are values here, so this is the function on a scope
  whose six arrays are six different arrays, as the object literal of
  \<^verbatim>\<open>createEmptyScope\<close> makes them and \<^verbatim>\<open>groupPluginApi\<close> uses them. On such a scope it
  agrees with \<open>addApiDeclarationToScope_store\<close> below, which pushes in place
  (\<open>separate_step_read\<close>); a scope with one array in two fields is only in the store
  model.
\<close>

definition addApiDeclarationToScope :: "ApiDeclaration \<Rightarrow> ScopeApi \<Rightarrow> ScopeApi" where
  "addApiDeclarationToScope declaration scope =
     (if lifecycle declaration = Some SETUP then scope\<lparr>setup := Some declaration\<rparr>
      else if lifecycle declaration = Some START then scope\<lparr>start := Some declaration\<rparr>
      else (case type declaration of
              Some ClassKind \<Rightarrow> scope\<lparr>classes := classes scope @ [declaration]\<rparr>
            | Some InterfaceKind \<Rightarrow> scope\<lparr>interfaces := interfaces scope @ [declaration]\<rparr>
            | Some EnumKind \<Rightarrow> scope\<lparr>enums := enums scope @ [declaration]\<rparr>
            | Some FunctionKind \<Rightarrow> scope\<lparr>functions := functions scope @ [declaration]\<rparr>
            | Some ObjectKind \<Rightarrow> scope\<lparr>objects := objects scope @ [declaration]\<rparr>
            | _ \<Rightarrow> scope\<lparr>misc := misc scope @ [declaration]\<rparr>))"

text \<open>
  \<^verbatim>\<open>groupPluginApi\<close>: \<^verbatim>\<open>forEach\<close> visits the declarations from first to last, each call
  working on the scope the previous one left.
\<close>

definition groupPluginApi :: "ApiDeclaration list \<Rightarrow> ScopeApi" where
  "groupPluginApi declarations = fold addApiDeclarationToScope declarations createEmptyScope"

text \<open>
  \<^verbatim>\<open>countScopeApi\<close>: \<^verbatim>\<open>api.setup ? 1 : 0\<close> tests the slot for truthiness; a declaration is
  an object and so truthy, \<^verbatim>\<open>undefined\<close> is falsy. The summands are in the order of the
  source. Array lengths are below \<open>2 ^ 32\<close>, so the sum of eight such numbers is exact in a
  JavaScript number and a natural number models it.
\<close>

definition countScopeApi :: "ScopeApi \<Rightarrow> nat" where
  "countScopeApi api =
     (case setup api of Some _ \<Rightarrow> 1 | None \<Rightarrow> 0) +
     (case start api of Some _ \<Rightarrow> 1 | None \<Rightarrow> 0) +
     length (classes api) +
     length (interfaces api) +
     length (functions api) +
     length (objects api) +
     length (enums api) +
     length (misc api)"

subsection \<open>The operations on a store of arrays\<close>

text \<open>
  JavaScript arrays are objects, and \<^verbatim>\<open>push\<close> changes the array it is called on for
  everyone who holds it. To say what \<^verbatim>\<open>groupPluginApi\<close> does to the array it is given,
  arrays live in a store: an address is an index into the store, and a new array gets the
  next free index. Declarations are only read, so they stay values.
\<close>

type_synonym addr = nat

type_synonym store = "ApiDeclaration list list"

type_synonym ScopeObj = "addr ScopeApi_of"

definition new_array :: "store \<Rightarrow> addr \<times> store" where
  "new_array h = (length h, h @ [[]])"

definition push :: "addr \<Rightarrow> ApiDeclaration \<Rightarrow> store \<Rightarrow> store" where
  "push a declaration h = h[a := h ! a @ [declaration]]"

text \<open>The six array literals of \<^verbatim>\<open>createEmptyScope\<close>, allocated in the order written.\<close>

definition createEmptyScope_store :: "store \<Rightarrow> ScopeObj \<times> store" where
  "createEmptyScope_store h0 =
     (let (c, h1) = new_array h0;
          (f, h2) = new_array h1;
          (i, h3) = new_array h2;
          (e, h4) = new_array h3;
          (m, h5) = new_array h4;
          (ob, h6) = new_array h5
      in (\<lparr>setup = None, start = None,
           classes = c, functions = f, interfaces = i, enums = e, misc = m, objects = ob\<rparr>,
          h6))"

definition addApiDeclarationToScope_store ::
    "ApiDeclaration \<Rightarrow> ScopeObj \<times> store \<Rightarrow> ScopeObj \<times> store" where
  "addApiDeclarationToScope_store declaration st =
     (case st of (scope, h) \<Rightarrow>
        if lifecycle declaration = Some SETUP then (scope\<lparr>setup := Some declaration\<rparr>, h)
        else if lifecycle declaration = Some START then (scope\<lparr>start := Some declaration\<rparr>, h)
        else (case type declaration of
                Some ClassKind \<Rightarrow> (scope, push (classes scope) declaration h)
              | Some InterfaceKind \<Rightarrow> (scope, push (interfaces scope) declaration h)
              | Some EnumKind \<Rightarrow> (scope, push (enums scope) declaration h)
              | Some FunctionKind \<Rightarrow> (scope, push (functions scope) declaration h)
              | Some ObjectKind \<Rightarrow> (scope, push (objects scope) declaration h)
              | _ \<Rightarrow> (scope, push (misc scope) declaration h)))"

text \<open>
  \<^verbatim>\<open>Array.prototype.forEach\<close> reads the length once, then for each index below it, in
  order, looks the element up in the array as it is at that moment and calls the callback
  on it; an index the array no longer has is skipped. \<open>forEach_from a k n\<close> is the rest
  of that loop at index \<open>k\<close> with \<open>n\<close> indices to go, for the callback of
  \<^verbatim>\<open>groupPluginApi\<close>.
\<close>

fun forEach_from :: "addr \<Rightarrow> nat \<Rightarrow> nat \<Rightarrow> ScopeObj \<times> store \<Rightarrow> ScopeObj \<times> store" where
  "forEach_from a k 0 st = st"
| "forEach_from a k (Suc n) st =
     forEach_from a (Suc k) n
       (if k < length (snd st ! a) then addApiDeclarationToScope_store (snd st ! a ! k) st
        else st)"

text \<open>\<^verbatim>\<open>groupPluginApi\<close>, given the address of \<^verbatim>\<open>declarations\<close>.\<close>

definition groupPluginApi_store :: "addr \<Rightarrow> store \<Rightarrow> ScopeObj \<times> store" where
  "groupPluginApi_store declarations h0 =
     (let st = createEmptyScope_store h0
      in forEach_from declarations 0 (length (snd st ! declarations)) st)"

text \<open>The scope a scope object stands for: each array-valued property looked up.\<close>

definition read_scope :: "ScopeObj \<Rightarrow> store \<Rightarrow> ScopeApi" where
  "read_scope scope h =
     \<lparr>setup = setup scope, start = start scope,
      classes = h ! classes scope, functions = h ! functions scope,
      interfaces = h ! interfaces scope, enums = h ! enums scope,
      misc = h ! misc scope, objects = h ! objects scope\<rparr>"

text \<open>
  What holds of the scope object while \<^verbatim>\<open>groupPluginApi\<close> runs on a store that had \<open>n\<close>
  arrays when it was called: its six arrays are the six allocated after them.
\<close>

definition fresh_scope :: "nat \<Rightarrow> ScopeObj \<Rightarrow> store \<Rightarrow> bool" where
  "fresh_scope n scope h \<longleftrightarrow>
     length h = n + 6 \<and> classes scope = n \<and> functions scope = n + 1 \<and>
     interfaces scope = n + 2 \<and> enums scope = n + 3 \<and> misc scope = n + 4 \<and>
     objects scope = n + 5"

text \<open>
  A scope object as \<^verbatim>\<open>createEmptyScope\<close> makes it: its six array-valued properties are six
  different arrays of the store.
\<close>

definition separate_arrays :: "ScopeObj \<Rightarrow> store \<Rightarrow> bool" where
  "separate_arrays scope h \<longleftrightarrow>
     distinct [classes scope, functions scope, interfaces scope, enums scope, misc scope,
       objects scope] \<and>
     classes scope < length h \<and> functions scope < length h \<and> interfaces scope < length h \<and>
     enums scope < length h \<and> misc scope < length h \<and> objects scope < length h"

subsection \<open>Notation for the statements\<close>

text \<open>
  The scope after one call of \<^verbatim>\<open>addApiDeclarationToScope\<close> on a scope object: the slots of
  the object and the contents of its six arrays, read from the store the call leaves.
\<close>

abbreviation (input) scope_after :: "ApiDeclaration \<Rightarrow> ScopeObj \<Rightarrow> store \<Rightarrow> ScopeApi" where
  "scope_after d scope h \<equiv>
     read_scope (fst (addApiDeclarationToScope_store d (scope, h)))
       (snd (addApiDeclarationToScope_store d (scope, h)))"


text \<open>A declaration written out: label, type tag, lifecycle tag.\<close>

abbreviation (input) decl :: "string \<Rightarrow> TypeKind option \<Rightarrow> Lifecycle option \<Rightarrow> ApiDeclaration" where
  "decl l t c \<equiv> \<lparr>label = l, type = t, lifecycle = c\<rparr>"

text \<open>The declarations that reach the \<^verbatim>\<open>switch\<close>: neither lifecycle test succeeds.\<close>

abbreviation (input) untagged :: "ApiDeclaration \<Rightarrow> bool" where
  "untagged d \<equiv> lifecycle d \<noteq> Some SETUP \<and> lifecycle d \<noteq> Some START"

text \<open>The type tags that have a \<^verbatim>\<open>case\<close> of their own in the \<^verbatim>\<open>switch\<close>.\<close>

abbreviation (input) recognized :: "TypeKind option set" where
  "recognized \<equiv>
     {Some ClassKind, Some InterfaceKind, Some EnumKind, Some FunctionKind, Some ObjectKind}"

text \<open>A declaration occurs in one of the six sequences of a scope.\<close>

abbreviation (input) in_type_bucket :: "ApiDeclaration \<Rightarrow> ScopeApi \<Rightarrow> bool" where
  "in_type_bucket d s \<equiv>
     d \<in> set (classes s) \<or> d \<in> set (interfaces s) \<or> d \<in> set (enums s) \<or>
     d \<in> set (functions s) \<or> d \<in> set (objects s) \<or> d \<in> set (misc s)"


section \<open>What one pass over the declarations leaves in each field\<close>

text \<open>
  The loop of \<^verbatim>\<open>groupPluginApi\<close>, started on any scope: each sequence grows by the
  declarations that reach its \<^verbatim>\<open>case\<close>, in the order met, and each slot holds the
  last declaration with its tag, or what it held before when there is none.
\<close>

lemma fold_setup:
  "setup (fold addApiDeclarationToScope ds s) =
     (case filter (\<lambda>d. lifecycle d = Some SETUP) ds of [] \<Rightarrow> setup s | xs \<Rightarrow> Some (last xs))"
  by (induction ds arbitrary: s)
     (auto simp: addApiDeclarationToScope_def split: option.split TypeKind.split list.split)

lemma fold_start:
  "start (fold addApiDeclarationToScope ds s) =
     (case filter (\<lambda>d. lifecycle d = Some START) ds of [] \<Rightarrow> start s | xs \<Rightarrow> Some (last xs))"
  by (induction ds arbitrary: s)
     (auto simp: addApiDeclarationToScope_def split: option.split TypeKind.split list.split)

lemma fold_classes:
  "classes (fold addApiDeclarationToScope ds s) =
     classes s @ filter (\<lambda>d. untagged d \<and> type d = Some ClassKind) ds"
  by (induction ds arbitrary: s)
     (simp_all add: addApiDeclarationToScope_def split: option.split TypeKind.split)

lemma fold_interfaces:
  "interfaces (fold addApiDeclarationToScope ds s) =
     interfaces s @ filter (\<lambda>d. untagged d \<and> type d = Some InterfaceKind) ds"
  by (induction ds arbitrary: s)
     (simp_all add: addApiDeclarationToScope_def split: option.split TypeKind.split)

lemma fold_enums:
  "enums (fold addApiDeclarationToScope ds s) =
     enums s @ filter (\<lambda>d. untagged d \<and> type d = Some EnumKind) ds"
  by (induction ds arbitrary: s)
     (simp_all add: addApiDeclarationToScope_def split: option.split TypeKind.split)

lemma fold_functions:
  "functions (fold addApiDeclarationToScope ds s) =
     functions s @ filter (\<lambda>d. untagged d \<and> type d = Some FunctionKind) ds"
  by (induction ds arbitrary: s)
     (simp_all add: addApiDeclarationToScope_def split: option.split TypeKind.split)

lemma fold_objects:
  "objects (fold addApiDeclarationToScope ds s) =
     objects s @ filter (\<lambda>d. untagged d \<and> type d = Some ObjectKind) ds"
  by (induction ds arbitrary: s)
     (simp_all add: addApiDeclarationToScope_def split: option.split TypeKind.split)

lemma fold_misc:
  "misc (fold addApiDeclarationToScope ds s) =
     misc s @ filter (\<lambda>d. untagged d \<and> type d \<notin> recognized) ds"
  by (induction ds arbitrary: s)
     (simp_all add: addApiDeclarationToScope_def split: option.split TypeKind.split)

lemma group_setup:
  "setup (groupPluginApi ds) =
     (if filter (\<lambda>d. lifecycle d = Some SETUP) ds = [] then None
      else Some (last (filter (\<lambda>d. lifecycle d = Some SETUP) ds)))"
  by (simp add: groupPluginApi_def fold_setup createEmptyScope_def split: list.split)

lemma group_start:
  "start (groupPluginApi ds) =
     (if filter (\<lambda>d. lifecycle d = Some START) ds = [] then None
      else Some (last (filter (\<lambda>d. lifecycle d = Some START) ds)))"
  by (simp add: groupPluginApi_def fold_start createEmptyScope_def split: list.split)

lemma group_buckets:
  "classes (groupPluginApi ds) = filter (\<lambda>d. untagged d \<and> type d = Some ClassKind) ds"
  "interfaces (groupPluginApi ds) = filter (\<lambda>d. untagged d \<and> type d = Some InterfaceKind) ds"
  "enums (groupPluginApi ds) = filter (\<lambda>d. untagged d \<and> type d = Some EnumKind) ds"
  "functions (groupPluginApi ds) = filter (\<lambda>d. untagged d \<and> type d = Some FunctionKind) ds"
  "objects (groupPluginApi ds) = filter (\<lambda>d. untagged d \<and> type d = Some ObjectKind) ds"
  "misc (groupPluginApi ds) = filter (\<lambda>d. untagged d \<and> type d \<notin> recognized) ds"
  by (simp_all add: groupPluginApi_def fold_classes fold_interfaces fold_enums fold_functions
      fold_objects fold_misc createEmptyScope_def)

lemma groupPluginApi_snoc:
  "groupPluginApi (ds @ [d]) = addApiDeclarationToScope d (groupPluginApi ds)"
  by (simp add: groupPluginApi_def)



section \<open>The empty scope and the count\<close>

text \<open>
  C8. \<^verbatim>\<open>createEmptyScope()\<close> returns a scope whose six sequences are empty and whose two
  slots are unset, and \<^verbatim>\<open>groupPluginApi\<close> on the empty sequence returns exactly that
  scope. The function has no argument and no branch, so there is nothing it could fail on.
\<close>

theorem createEmptyScope_all_empty:
  "setup createEmptyScope = None \<and> start createEmptyScope = None \<and>
   classes createEmptyScope = [] \<and> interfaces createEmptyScope = [] \<and>
   enums createEmptyScope = [] \<and> functions createEmptyScope = [] \<and>
   objects createEmptyScope = [] \<and> misc createEmptyScope = [] \<and>
   groupPluginApi [] = createEmptyScope"
  by (simp add: createEmptyScope_def groupPluginApi_def)

text \<open>
  C7. For every scope, \<^verbatim>\<open>countScopeApi\<close> returns 1 for a present setup slot, plus 1 for a
  present start slot, plus the lengths of classes, interfaces, enums, functions, objects
  and misc (the order in which the spec lists them; the source adds them in another
  order). It is a function of the scope alone, with a value for every scope.
\<close>

theorem countScopeApi_is_slots_plus_lengths:
  "countScopeApi s =
     (if setup s = None then 0 else 1) + (if start s = None then 0 else 1) +
     (length (classes s) + length (interfaces s) + length (enums s) +
      length (functions s) + length (objects s) + length (misc s))"
  by (simp add: countScopeApi_def split: option.split)

section \<open>One call of \<^verbatim>\<open>addApiDeclarationToScope\<close>, the scope as a value\<close>

text \<open>Each branch updates one field of the scope and leaves the others.\<close>

lemma addApiDeclarationToScope_cases:
  "addApiDeclarationToScope d s = s\<lparr>setup := Some d\<rparr> \<or>
   addApiDeclarationToScope d s = s\<lparr>start := Some d\<rparr> \<or>
   addApiDeclarationToScope d s = s\<lparr>classes := classes s @ [d]\<rparr> \<or>
   addApiDeclarationToScope d s = s\<lparr>interfaces := interfaces s @ [d]\<rparr> \<or>
   addApiDeclarationToScope d s = s\<lparr>enums := enums s @ [d]\<rparr> \<or>
   addApiDeclarationToScope d s = s\<lparr>functions := functions s @ [d]\<rparr> \<or>
   addApiDeclarationToScope d s = s\<lparr>objects := objects s @ [d]\<rparr> \<or>
   addApiDeclarationToScope d s = s\<lparr>misc := misc s @ [d]\<rparr>"
  by (simp add: addApiDeclarationToScope_def split: option.split TypeKind.split)

section \<open>What \<^verbatim>\<open>groupPluginApi\<close> returns\<close>

lemma groupPluginApi_eq:
  "groupPluginApi ds =
     \<lparr>setup = (if filter (\<lambda>d. lifecycle d = Some SETUP) ds = [] then None
               else Some (last (filter (\<lambda>d. lifecycle d = Some SETUP) ds))),
      start = (if filter (\<lambda>d. lifecycle d = Some START) ds = [] then None
               else Some (last (filter (\<lambda>d. lifecycle d = Some START) ds))),
      classes = filter (\<lambda>d. untagged d \<and> type d = Some ClassKind) ds,
      functions = filter (\<lambda>d. untagged d \<and> type d = Some FunctionKind) ds,
      interfaces = filter (\<lambda>d. untagged d \<and> type d = Some InterfaceKind) ds,
      enums = filter (\<lambda>d. untagged d \<and> type d = Some EnumKind) ds,
      misc = filter (\<lambda>d. untagged d \<and> type d \<notin> recognized) ds,
      objects = filter (\<lambda>d. untagged d \<and> type d = Some ObjectKind) ds\<rparr>"
  by (rule ScopeApi_of.equality) (simp_all add: group_setup group_start group_buckets)

text \<open>
  C6. Let \<open>d\<close> be a declaration of the input tagged neither Setup nor Start, \<open>xs\<close> the
  declarations before it and \<open>ys\<close> those after it. What \<^verbatim>\<open>groupPluginApi\<close> returns for
  the input differs from what it returns for the input without \<open>d\<close> in one sequence
  only, to which \<open>d\<close> has been appended: after what \<open>xs\<close> put there and before what
  \<open>ys\<close> puts there. That sequence is the one named after the type tag of \<open>d\<close> when the
  tag is Class, Interface, Enum, Function or Object, and misc when the tag is any other or
  absent. With \<open>ys\<close> empty this is \<^verbatim>\<open>groupPluginApi\<close> appending the last declaration to
  the end of that sequence.
\<close>

theorem groupPluginApi_appends_by_type_tag:
  assumes "lifecycle d \<noteq> Some SETUP" and "lifecycle d \<noteq> Some START"
  shows
    "(type d = Some ClassKind \<longrightarrow>
        groupPluginApi (xs @ d # ys) =
          (groupPluginApi (xs @ ys))
            \<lparr>classes := classes (groupPluginApi xs) @ d # classes (groupPluginApi ys)\<rparr>) \<and>
     (type d = Some InterfaceKind \<longrightarrow>
        groupPluginApi (xs @ d # ys) =
          (groupPluginApi (xs @ ys))
            \<lparr>interfaces :=
               interfaces (groupPluginApi xs) @ d # interfaces (groupPluginApi ys)\<rparr>) \<and>
     (type d = Some EnumKind \<longrightarrow>
        groupPluginApi (xs @ d # ys) =
          (groupPluginApi (xs @ ys))
            \<lparr>enums := enums (groupPluginApi xs) @ d # enums (groupPluginApi ys)\<rparr>) \<and>
     (type d = Some FunctionKind \<longrightarrow>
        groupPluginApi (xs @ d # ys) =
          (groupPluginApi (xs @ ys))
            \<lparr>functions :=
               functions (groupPluginApi xs) @ d # functions (groupPluginApi ys)\<rparr>) \<and>
     (type d = Some ObjectKind \<longrightarrow>
        groupPluginApi (xs @ d # ys) =
          (groupPluginApi (xs @ ys))
            \<lparr>objects := objects (groupPluginApi xs) @ d # objects (groupPluginApi ys)\<rparr>) \<and>
     (type d \<notin> recognized \<longrightarrow>
        groupPluginApi (xs @ d # ys) =
          (groupPluginApi (xs @ ys))
            \<lparr>misc := misc (groupPluginApi xs) @ d # misc (groupPluginApi ys)\<rparr>)"
  using assms by (simp add: groupPluginApi_eq)

text \<open>
  The example of the spec, with a declaration that has no type tag added: the types
  Class, Interface, Enum, Function, Object, Unknown and none, each declaration taken as
  the \<open>d\<close> of the theorem with the ones before and after it.
\<close>

theorem groupPluginApi_appends_by_type_tag_witness:
  "groupPluginApi
     [decl ''c'' (Some ClassKind) None, decl ''i'' (Some InterfaceKind) None,
      decl ''e'' (Some EnumKind) None, decl ''f'' (Some FunctionKind) None,
      decl ''o'' (Some ObjectKind) None, decl ''u'' (Some (OtherKind ''Unknown'')) None,
      decl ''a'' None None] =
   \<lparr>setup = None, start = None,
    classes = [decl ''c'' (Some ClassKind) None],
    functions = [decl ''f'' (Some FunctionKind) None],
    interfaces = [decl ''i'' (Some InterfaceKind) None],
    enums = [decl ''e'' (Some EnumKind) None],
    misc = [decl ''u'' (Some (OtherKind ''Unknown'')) None, decl ''a'' None None],
    objects = [decl ''o'' (Some ObjectKind) None]\<rparr>"
proof -
  let ?c = "decl ''c'' (Some ClassKind) None" and ?i = "decl ''i'' (Some InterfaceKind) None"
  let ?e = "decl ''e'' (Some EnumKind) None" and ?f = "decl ''f'' (Some FunctionKind) None"
  let ?ob = "decl ''o'' (Some ObjectKind) None"
  let ?u = "decl ''u'' (Some (OtherKind ''Unknown'')) None" and ?a = "decl ''a'' None None"
  have empty: "groupPluginApi [] = createEmptyScope"
    by (simp add: groupPluginApi_def)
  have 1: "groupPluginApi [?c] = createEmptyScope\<lparr>classes := [?c]\<rparr>"
    using groupPluginApi_appends_by_type_tag [of ?c "[]" "[]"] by (simp add: empty createEmptyScope_def)
  have 2: "groupPluginApi [?c, ?i] = (groupPluginApi [?c])\<lparr>interfaces := [?i]\<rparr>"
    using groupPluginApi_appends_by_type_tag [of ?i "[?c]" "[]"]
    by (simp add: empty 1 createEmptyScope_def)
  have 3: "groupPluginApi [?c, ?i, ?e] = (groupPluginApi [?c, ?i])\<lparr>enums := [?e]\<rparr>"
    using groupPluginApi_appends_by_type_tag [of ?e "[?c, ?i]" "[]"]
    by (simp add: empty 1 2 createEmptyScope_def)
  have 4: "groupPluginApi [?c, ?i, ?e, ?f] = (groupPluginApi [?c, ?i, ?e])\<lparr>functions := [?f]\<rparr>"
    using groupPluginApi_appends_by_type_tag [of ?f "[?c, ?i, ?e]" "[]"]
    by (simp add: empty 1 2 3 createEmptyScope_def)
  have 5: "groupPluginApi [?c, ?i, ?e, ?f, ?ob] =
      (groupPluginApi [?c, ?i, ?e, ?f])\<lparr>objects := [?ob]\<rparr>"
    using groupPluginApi_appends_by_type_tag [of ?ob "[?c, ?i, ?e, ?f]" "[]"]
    by (simp add: empty 1 2 3 4 createEmptyScope_def)
  have 6: "groupPluginApi [?c, ?i, ?e, ?f, ?ob, ?u] =
      (groupPluginApi [?c, ?i, ?e, ?f, ?ob])\<lparr>misc := [?u]\<rparr>"
    using groupPluginApi_appends_by_type_tag [of ?u "[?c, ?i, ?e, ?f, ?ob]" "[]"]
    by (simp add: empty 1 2 3 4 5 createEmptyScope_def)
  have 7: "groupPluginApi [?c, ?i, ?e, ?f, ?ob, ?u, ?a] =
      (groupPluginApi [?c, ?i, ?e, ?f, ?ob, ?u])\<lparr>misc := [?u, ?a]\<rparr>"
    using groupPluginApi_appends_by_type_tag [of ?a "[?c, ?i, ?e, ?f, ?ob, ?u]" "[]"]
    by (simp add: empty 1 2 3 4 5 6 createEmptyScope_def)
  show ?thesis
    by (simp add: 1 2 3 4 5 6 7 createEmptyScope_def)
qed

text \<open>
  C5. Each of the six sequences of the scope \<^verbatim>\<open>groupPluginApi\<close> returns is the input with
  the declarations of the other places left out: what remains is in the order of the
  input, so two declarations in one sequence stand there as they stand in the input. (One
  pass, appending only: \<open>fold\<close> in the definition, \<open>@\<close> in every branch.)
\<close>

theorem buckets_keep_input_order:
  "classes (groupPluginApi ds) = filter (\<lambda>d. untagged d \<and> type d = Some ClassKind) ds \<and>
   interfaces (groupPluginApi ds) =
     filter (\<lambda>d. untagged d \<and> type d = Some InterfaceKind) ds \<and>
   enums (groupPluginApi ds) = filter (\<lambda>d. untagged d \<and> type d = Some EnumKind) ds \<and>
   functions (groupPluginApi ds) =
     filter (\<lambda>d. untagged d \<and> type d = Some FunctionKind) ds \<and>
   objects (groupPluginApi ds) = filter (\<lambda>d. untagged d \<and> type d = Some ObjectKind) ds \<and>
   misc (groupPluginApi ds) = filter (\<lambda>d. untagged d \<and> type d \<notin> recognized) ds"
  by (simp add: group_buckets)

text \<open>
  C3. A declaration tagged Setup or Start is never put into one of the six sequences,
  whatever its type tag: the call of \<^verbatim>\<open>addApiDeclarationToScope\<close> on it leaves all six as
  they were, and it occurs in none of the six sequences \<^verbatim>\<open>groupPluginApi\<close> returns.
\<close>

theorem lifecycle_tag_takes_priority:
  assumes "lifecycle d = Some SETUP \<or> lifecycle d = Some START"
  shows
    "classes (addApiDeclarationToScope d s) = classes s \<and>
     interfaces (addApiDeclarationToScope d s) = interfaces s \<and>
     enums (addApiDeclarationToScope d s) = enums s \<and>
     functions (addApiDeclarationToScope d s) = functions s \<and>
     objects (addApiDeclarationToScope d s) = objects s \<and>
     misc (addApiDeclarationToScope d s) = misc s \<and>
     \<not> in_type_bucket d (groupPluginApi ds)"
proof -
  from assms have step:
    "classes (addApiDeclarationToScope d s) = classes s"
    "interfaces (addApiDeclarationToScope d s) = interfaces s"
    "enums (addApiDeclarationToScope d s) = enums s"
    "functions (addApiDeclarationToScope d s) = functions s"
    "objects (addApiDeclarationToScope d s) = objects s"
    "misc (addApiDeclarationToScope d s) = misc s"
    by (auto simp: addApiDeclarationToScope_def)
  from assms have "\<not> in_type_bucket d (groupPluginApi ds)"
    by (auto simp: group_buckets)
  with step show ?thesis by simp
qed

text \<open>
  A Setup declaration of type Class and a Start declaration of type Function, each among
  untagged declarations of the same type.
\<close>

theorem lifecycle_tag_takes_priority_witness:
  "lifecycle (decl ''a'' (Some ClassKind) (Some SETUP)) = Some SETUP \<and>
   classes (groupPluginApi
     [decl ''c'' (Some ClassKind) None, decl ''a'' (Some ClassKind) (Some SETUP)]) =
     [decl ''c'' (Some ClassKind) None] \<and>
   lifecycle (decl ''b'' (Some FunctionKind) (Some START)) = Some START \<and>
   functions (groupPluginApi
     [decl ''b'' (Some FunctionKind) (Some START), decl ''f'' (Some FunctionKind) None]) =
     [decl ''f'' (Some FunctionKind) None]"
  using
    lifecycle_tag_takes_priority
      [of "decl ''a'' (Some ClassKind) (Some SETUP)"
          "groupPluginApi [decl ''c'' (Some ClassKind) None]" "[]"]
    lifecycle_tag_takes_priority
      [of "decl ''b'' (Some FunctionKind) (Some START)" createEmptyScope "[]"]
  by (simp add: groupPluginApi_def addApiDeclarationToScope_def createEmptyScope_def)

text \<open>
  C4. When the input has declarations tagged Setup (two or more, or just one), the setup
  slot of the result holds the last of them in input order; the same for Start and the
  start slot. No declaration with a lifecycle tag, kept or overwritten, is in any of the
  six sequences. There is no failure: \<^verbatim>\<open>groupPluginApi\<close> and the functions it calls have no
  \<^verbatim>\<open>throw\<close> and read no property of a value that may be \<^verbatim>\<open>undefined\<close>, so the model has a
  scope for every input and no error value; the empty input, unknown type tags and
  repeated lifecycle tags take the branches above like any other.
\<close>

theorem last_lifecycle_declaration_wins:
  "(filter (\<lambda>d. lifecycle d = Some SETUP) ds \<noteq> [] \<longrightarrow>
      setup (groupPluginApi ds) = Some (last (filter (\<lambda>d. lifecycle d = Some SETUP) ds))) \<and>
   (filter (\<lambda>d. lifecycle d = Some START) ds \<noteq> [] \<longrightarrow>
      start (groupPluginApi ds) = Some (last (filter (\<lambda>d. lifecycle d = Some START) ds))) \<and>
   (\<forall>d. lifecycle d = Some SETUP \<or> lifecycle d = Some START \<longrightarrow>
      \<not> in_type_bucket d (groupPluginApi ds))"
  by (auto simp: group_setup group_start group_buckets)

text \<open>Two Setup and two Start declarations among others: the second of each is kept.\<close>

theorem last_lifecycle_declaration_wins_witness:
  "groupPluginApi
     [decl ''a'' (Some ClassKind) (Some SETUP), decl ''b'' None (Some START),
      decl ''c'' (Some ClassKind) None,
      decl ''d'' (Some ObjectKind) (Some SETUP), decl ''e'' None (Some START)] =
   \<lparr>setup = Some (decl ''d'' (Some ObjectKind) (Some SETUP)),
    start = Some (decl ''e'' None (Some START)),
    classes = [decl ''c'' (Some ClassKind) None],
    functions = [], interfaces = [], enums = [], misc = [], objects = []\<rparr> \<and>
   setup (groupPluginApi
     [decl ''a'' (Some ClassKind) (Some SETUP), decl ''b'' None (Some START),
      decl ''c'' (Some ClassKind) None,
      decl ''d'' (Some ObjectKind) (Some SETUP), decl ''e'' None (Some START)]) =
   Some (last (filter (\<lambda>d. lifecycle d = Some SETUP)
     [decl ''a'' (Some ClassKind) (Some SETUP), decl ''b'' None (Some START),
      decl ''c'' (Some ClassKind) None,
      decl ''d'' (Some ObjectKind) (Some SETUP), decl ''e'' None (Some START)]))"
  using last_lifecycle_declaration_wins
    [of "[decl ''a'' (Some ClassKind) (Some SETUP), decl ''b'' None (Some START),
          decl ''c'' (Some ClassKind) None,
          decl ''d'' (Some ObjectKind) (Some SETUP), decl ''e'' None (Some START)]"]
  by (simp add: groupPluginApi_def addApiDeclarationToScope_def createEmptyScope_def)

section \<open>Counting what was grouped\<close>

lemma bucket_lengths:
  "length (filter (\<lambda>d. untagged d \<and> type d = Some ClassKind) ds) +
   length (filter (\<lambda>d. untagged d \<and> type d = Some InterfaceKind) ds) +
   length (filter (\<lambda>d. untagged d \<and> type d = Some FunctionKind) ds) +
   length (filter (\<lambda>d. untagged d \<and> type d = Some ObjectKind) ds) +
   length (filter (\<lambda>d. untagged d \<and> type d = Some EnumKind) ds) +
   length (filter (\<lambda>d. untagged d \<and> type d \<notin> recognized) ds) =
   length (filter untagged ds)"
  by (induction ds) auto

lemma length_by_lifecycle:
  "length ds =
     length (filter untagged ds) +
     length (filter (\<lambda>d. lifecycle d = Some SETUP) ds) +
     length (filter (\<lambda>d. lifecycle d = Some START) ds)"
  by (induction ds) auto

lemma count_group:
  "countScopeApi (groupPluginApi ds) =
     min 1 (length (filter (\<lambda>d. lifecycle d = Some SETUP) ds)) +
     min 1 (length (filter (\<lambda>d. lifecycle d = Some START) ds)) +
     length (filter untagged ds)"
proof -
  have one: "xs \<noteq> [] \<Longrightarrow> min (Suc 0) (length xs) = Suc 0" for xs :: "ApiDeclaration list"
    by (cases xs) simp_all
  have slots:
    "(case setup (groupPluginApi ds) of Some _ \<Rightarrow> 1 | None \<Rightarrow> 0) =
       min (1::nat) (length (filter (\<lambda>d. lifecycle d = Some SETUP) ds))"
    "(case start (groupPluginApi ds) of Some _ \<Rightarrow> 1 | None \<Rightarrow> 0) =
       min (1::nat) (length (filter (\<lambda>d. lifecycle d = Some START) ds))"
    by (simp_all add: group_setup group_start one)
  show ?thesis
    unfolding countScopeApi_def slots
    using bucket_lengths [of ds]
    by (simp add: group_buckets)
qed

text \<open>
  C1, as the code has it. The count of the grouped declarations equals the length of the
  input when the input has at most one declaration tagged Setup and at most one tagged
  Start; with more of either, each slot still counts once, and the count is smaller than
  the length.
\<close>

theorem count_of_group_is_length:
  "(length (filter (\<lambda>d. lifecycle d = Some SETUP) ds) \<le> 1 \<and>
    length (filter (\<lambda>d. lifecycle d = Some START) ds) \<le> 1
      \<longrightarrow> countScopeApi (groupPluginApi ds) = length ds) \<and>
   (\<not> (length (filter (\<lambda>d. lifecycle d = Some SETUP) ds) \<le> 1 \<and>
       length (filter (\<lambda>d. lifecycle d = Some START) ds) \<le> 1)
      \<longrightarrow> countScopeApi (groupPluginApi ds) < length ds)"
  using length_by_lifecycle [of ds] by (auto simp: count_group)

text \<open>
  One Setup, one Start and two untagged declarations are counted as four; with a second
  Start declaration the five are counted as four.
\<close>

theorem count_of_group_is_length_witness:
  "length (filter (\<lambda>d. lifecycle d = Some SETUP)
     [decl ''a'' None (Some SETUP), decl ''b'' None (Some START),
      decl ''c'' (Some ClassKind) None, decl ''m'' None None]) \<le> 1 \<and>
   length (filter (\<lambda>d. lifecycle d = Some START)
     [decl ''a'' None (Some SETUP), decl ''b'' None (Some START),
      decl ''c'' (Some ClassKind) None, decl ''m'' None None]) \<le> 1 \<and>
   countScopeApi (groupPluginApi
     [decl ''a'' None (Some SETUP), decl ''b'' None (Some START),
      decl ''c'' (Some ClassKind) None, decl ''m'' None None]) = 4 \<and>
   \<not> length (filter (\<lambda>d. lifecycle d = Some START)
     [decl ''a'' None (Some SETUP), decl ''b'' None (Some START),
      decl ''c'' (Some ClassKind) None, decl ''m'' None None,
      decl ''e'' None (Some START)]) \<le> 1 \<and>
   countScopeApi (groupPluginApi
     [decl ''a'' None (Some SETUP), decl ''b'' None (Some START),
      decl ''c'' (Some ClassKind) None, decl ''m'' None None,
      decl ''e'' None (Some START)]) < 5"
  using
    count_of_group_is_length
      [of "[decl ''a'' None (Some SETUP), decl ''b'' None (Some START),
            decl ''c'' (Some ClassKind) None, decl ''m'' None None]"]
    count_of_group_is_length
      [of "[decl ''a'' None (Some SETUP), decl ''b'' None (Some START),
            decl ''c'' (Some ClassKind) None, decl ''m'' None None,
            decl ''e'' None (Some START)]"]
  by simp

text \<open>
  C1 as stated fails: two declarations tagged Setup are counted as one, the second having
  taken the slot of the first.
\<close>

theorem count_of_two_setups_is_one:
  "countScopeApi (groupPluginApi
     [decl ''a'' (Some ClassKind) (Some SETUP), decl ''b'' (Some ClassKind) (Some SETUP)]) = 1 \<and>
   length [decl ''a'' (Some ClassKind) (Some SETUP), decl ''b'' (Some ClassKind) (Some SETUP)] = 2"
  by (simp add: countScopeApi_def groupPluginApi_def addApiDeclarationToScope_def
      createEmptyScope_def)

section \<open>Where each declaration ends up\<close>







section \<open>The array \<^verbatim>\<open>groupPluginApi\<close> is given\<close>

lemma createEmptyScope_store_eq:
  "createEmptyScope_store h =
     (\<lparr>setup = None, start = None, classes = length h, functions = length h + 1,
       interfaces = length h + 2, enums = length h + 3, misc = length h + 4,
       objects = length h + 5\<rparr>,
      h @ [[], [], [], [], [], []])"
  by (simp add: createEmptyScope_store_def new_array_def)

lemma createEmptyScope_store_fresh:
  "fresh_scope (length h) (fst (createEmptyScope_store h)) (snd (createEmptyScope_store h))"
  by (simp add: createEmptyScope_store_eq fresh_scope_def)

lemma createEmptyScope_store_read:
  "read_scope (fst (createEmptyScope_store h)) (snd (createEmptyScope_store h)) =
     createEmptyScope"
  by (simp add: createEmptyScope_store_eq read_scope_def createEmptyScope_def nth_append)

lemma take_push: "n \<le> a \<Longrightarrow> take n (push a d h) = take n h"
  by (simp add: push_def)

lemma length_push: "length (push a d h) = length h"
  by (simp add: push_def)

lemma nth_push: "a < length h \<Longrightarrow> push a d h ! b = (if b = a then h ! a @ [d] else h ! b)"
  by (simp add: push_def nth_list_update)

text \<open>
  One call of the callback on a scope object whose arrays are the six fresh ones: the
  object keeps its arrays, the arrays that were there before the call of
  \<^verbatim>\<open>groupPluginApi\<close> keep their contents, and the scope read back is the one the
  value-passing \<^verbatim>\<open>addApiDeclarationToScope\<close> computes.
\<close>

lemma step_fresh:
  "fresh_scope n scope h \<Longrightarrow>
   fresh_scope n (fst (addApiDeclarationToScope_store d (scope, h)))
     (snd (addApiDeclarationToScope_store d (scope, h)))"
  by (simp add: addApiDeclarationToScope_store_def fresh_scope_def length_push
      split: option.split TypeKind.split)

lemma step_take:
  "fresh_scope n scope h \<Longrightarrow>
   take n (snd (addApiDeclarationToScope_store d (scope, h))) = take n h"
  by (simp add: addApiDeclarationToScope_store_def fresh_scope_def take_push
      split: option.split TypeKind.split)

lemma step_read:
  "fresh_scope n scope h \<Longrightarrow>
   read_scope (fst (addApiDeclarationToScope_store d (scope, h)))
     (snd (addApiDeclarationToScope_store d (scope, h))) =
   addApiDeclarationToScope d (read_scope scope h)"
  by (simp add: addApiDeclarationToScope_store_def addApiDeclarationToScope_def fresh_scope_def
      read_scope_def nth_push split: option.split TypeKind.split)

lemma forEach_from_inv:
  "fresh_scope n (fst st) (snd st) \<Longrightarrow> a < n \<Longrightarrow> take n (snd st) = h0 \<Longrightarrow>
   k + m \<le> length (h0 ! a) \<Longrightarrow>
   fresh_scope n (fst (forEach_from a k m st)) (snd (forEach_from a k m st)) \<and>
   take n (snd (forEach_from a k m st)) = h0 \<and>
   read_scope (fst (forEach_from a k m st)) (snd (forEach_from a k m st)) =
     fold addApiDeclarationToScope (take m (drop k (h0 ! a))) (read_scope (fst st) (snd st))"
proof (induction m arbitrary: k st)
  case 0
  then show ?case by simp
next
  case (Suc m)
  obtain scope h where st: "st = (scope, h)" by (cases st)
  from Suc.prems st have fr: "fresh_scope n scope h" and tk: "take n h = h0" by simp_all
  from tk \<open>a < n\<close> have ha: "h ! a = h0 ! a" by auto
  from Suc.prems have k: "k < length (h0 ! a)" by simp
  let ?st' = "addApiDeclarationToScope_store (h0 ! a ! k) (scope, h)"
  have eq: "forEach_from a k (Suc m) st = forEach_from a (Suc k) m ?st'"
    using k ha st by simp
  have "fresh_scope n (fst ?st') (snd ?st')" by (rule step_fresh [OF fr])
  moreover have "take n (snd ?st') = h0" using step_take [OF fr] tk by simp
  moreover have "Suc k + m \<le> length (h0 ! a)" using Suc.prems by simp
  ultimately have IH:
    "fresh_scope n (fst (forEach_from a (Suc k) m ?st')) (snd (forEach_from a (Suc k) m ?st')) \<and>
     take n (snd (forEach_from a (Suc k) m ?st')) = h0 \<and>
     read_scope (fst (forEach_from a (Suc k) m ?st')) (snd (forEach_from a (Suc k) m ?st')) =
       fold addApiDeclarationToScope (take m (drop (Suc k) (h0 ! a)))
         (read_scope (fst ?st') (snd ?st'))"
    using Suc.IH [of ?st' "Suc k"] \<open>a < n\<close> by blast
  have dr: "take (Suc m) (drop k (h0 ! a)) = h0 ! a ! k # take m (drop (Suc k) (h0 ! a))"
    using k by (simp add: Cons_nth_drop_Suc [symmetric])
  show ?case
    unfolding eq dr using IH step_read [OF fr, of "h0 ! a ! k"] st by simp
qed

text \<open>
  C9. \<^verbatim>\<open>groupPluginApi\<close>, called with an array of the store, leaves that array as it was
  (same length, same declarations, same order). It changes no array that was in the store
  before the call; all it adds are the six arrays of the new scope. Read back from the
  store, the scope it returns is the one the value-passing \<^verbatim>\<open>groupPluginApi\<close> computes
  from the contents of the input array.
\<close>

theorem groupPluginApi_leaves_input_unchanged:
  assumes a: "a < length h"
  shows
    "snd (groupPluginApi_store a h) ! a = h ! a \<and>
     take (length h) (snd (groupPluginApi_store a h)) = h \<and>
     length (snd (groupPluginApi_store a h)) = length h + 6 \<and>
     read_scope (fst (groupPluginApi_store a h)) (snd (groupPluginApi_store a h)) =
       groupPluginApi (h ! a)"
proof -
  let ?st = "createEmptyScope_store h"
  let ?r = "groupPluginApi_store a h"
  have len: "snd ?st ! a = h ! a" using a by (simp add: createEmptyScope_store_eq nth_append)
  have r: "?r = forEach_from a 0 (length (h ! a)) ?st"
    by (simp add: groupPluginApi_store_def Let_def len)
  have tk: "take (length h) (snd ?st) = h" by (simp add: createEmptyScope_store_eq)
  have inv:
    "fresh_scope (length h) (fst ?r) (snd ?r) \<and> take (length h) (snd ?r) = h \<and>
     read_scope (fst ?r) (snd ?r) =
       fold addApiDeclarationToScope (take (length (h ! a)) (drop 0 (h ! a)))
         (read_scope (fst ?st) (snd ?st))"
    unfolding r
    by (rule forEach_from_inv [OF createEmptyScope_store_fresh a tk]) simp
  from inv have t: "take (length h) (snd ?r) = h" by simp
  from inv have l: "length (snd ?r) = length h + 6" by (simp add: fresh_scope_def)
  have "snd ?r ! a = take (length h) (snd ?r) ! a" using a by simp
  with t have n: "snd ?r ! a = h ! a" by simp
  from inv have rd: "read_scope (fst ?r) (snd ?r) = groupPluginApi (h ! a)"
    by (simp add: createEmptyScope_store_read groupPluginApi_def)
  from n t l rd show ?thesis by simp
qed

text \<open>
  A store of two arrays, the second one the input: a Setup, a Class and an untagged
  declaration.
\<close>

theorem groupPluginApi_leaves_input_unchanged_witness:
  "(1::nat) < length
     [[decl ''x'' None None],
      [decl ''a'' None (Some SETUP), decl ''c'' (Some ClassKind) None, decl ''m'' None None]] \<and>
   groupPluginApi_store 1
     [[decl ''x'' None None],
      [decl ''a'' None (Some SETUP), decl ''c'' (Some ClassKind) None, decl ''m'' None None]] =
   (\<lparr>setup = Some (decl ''a'' None (Some SETUP)), start = None,
     classes = 2, functions = 3, interfaces = 4, enums = 5, misc = 6, objects = 7\<rparr>,
    [[decl ''x'' None None],
     [decl ''a'' None (Some SETUP), decl ''c'' (Some ClassKind) None, decl ''m'' None None],
     [decl ''c'' (Some ClassKind) None], [], [], [], [decl ''m'' None None], []]) \<and>
   snd (groupPluginApi_store 1
     [[decl ''x'' None None],
      [decl ''a'' None (Some SETUP), decl ''c'' (Some ClassKind) None, decl ''m'' None None]])
     ! 1 =
   [[decl ''x'' None None],
    [decl ''a'' None (Some SETUP), decl ''c'' (Some ClassKind) None, decl ''m'' None None]] ! 1"
proof -
  let ?h = "[[decl ''x'' None None],
      [decl ''a'' None (Some SETUP), decl ''c'' (Some ClassKind) None, decl ''m'' None None]]"
  have valid: "(1::nat) < length ?h" by simp
  have run: "groupPluginApi_store 1 ?h =
    (\<lparr>setup = Some (decl ''a'' None (Some SETUP)), start = None,
      classes = 2, functions = 3, interfaces = 4, enums = 5, misc = 6, objects = 7\<rparr>,
     [[decl ''x'' None None],
      [decl ''a'' None (Some SETUP), decl ''c'' (Some ClassKind) None, decl ''m'' None None],
      [decl ''c'' (Some ClassKind) None], [], [], [], [decl ''m'' None None], []])"
    by (simp add: groupPluginApi_store_def createEmptyScope_store_def new_array_def
        addApiDeclarationToScope_store_def push_def numeral_3_eq_3)
  from groupPluginApi_leaves_input_unchanged [OF valid]
  have "snd (groupPluginApi_store 1 ?h) ! 1 = ?h ! 1" by (rule conjunct1)
  with valid run show ?thesis by blast
qed

section \<open>One call of \<^verbatim>\<open>addApiDeclarationToScope\<close>, the scope as an object\<close>

lemma push_same: "a < length h \<Longrightarrow> push a d h ! a = h ! a @ [d]"
  by (simp add: push_def)

lemma push_other: "b \<noteq> a \<Longrightarrow> push a d h ! b = h ! b"
  by (simp add: push_def)

lemma read_push_classes:
  assumes "separate_arrays scope h"
  shows "read_scope scope (push (classes scope) d h) =
    (read_scope scope h)\<lparr>classes := classes (read_scope scope h) @ [d]\<rparr>"
proof -
  from assms have v: "classes scope < length h" by (simp add: separate_arrays_def)
  from assms have ne: "functions scope \<noteq> classes scope" "interfaces scope \<noteq> classes scope" "enums scope \<noteq> classes scope" "misc scope \<noteq> classes scope" "objects scope \<noteq> classes scope"
    by (auto simp: separate_arrays_def)
  show ?thesis
    unfolding read_scope_def
    by (simp add: push_same [OF v] ne [THEN push_other])
qed

lemma read_push_functions:
  assumes "separate_arrays scope h"
  shows "read_scope scope (push (functions scope) d h) =
    (read_scope scope h)\<lparr>functions := functions (read_scope scope h) @ [d]\<rparr>"
proof -
  from assms have v: "functions scope < length h" by (simp add: separate_arrays_def)
  from assms have ne: "classes scope \<noteq> functions scope" "interfaces scope \<noteq> functions scope" "enums scope \<noteq> functions scope" "misc scope \<noteq> functions scope" "objects scope \<noteq> functions scope"
    by (auto simp: separate_arrays_def)
  show ?thesis
    unfolding read_scope_def
    by (simp add: push_same [OF v] ne [THEN push_other])
qed

lemma read_push_interfaces:
  assumes "separate_arrays scope h"
  shows "read_scope scope (push (interfaces scope) d h) =
    (read_scope scope h)\<lparr>interfaces := interfaces (read_scope scope h) @ [d]\<rparr>"
proof -
  from assms have v: "interfaces scope < length h" by (simp add: separate_arrays_def)
  from assms have ne: "classes scope \<noteq> interfaces scope" "functions scope \<noteq> interfaces scope" "enums scope \<noteq> interfaces scope" "misc scope \<noteq> interfaces scope" "objects scope \<noteq> interfaces scope"
    by (auto simp: separate_arrays_def)
  show ?thesis
    unfolding read_scope_def
    by (simp add: push_same [OF v] ne [THEN push_other])
qed

lemma read_push_enums:
  assumes "separate_arrays scope h"
  shows "read_scope scope (push (enums scope) d h) =
    (read_scope scope h)\<lparr>enums := enums (read_scope scope h) @ [d]\<rparr>"
proof -
  from assms have v: "enums scope < length h" by (simp add: separate_arrays_def)
  from assms have ne: "classes scope \<noteq> enums scope" "functions scope \<noteq> enums scope" "interfaces scope \<noteq> enums scope" "misc scope \<noteq> enums scope" "objects scope \<noteq> enums scope"
    by (auto simp: separate_arrays_def)
  show ?thesis
    unfolding read_scope_def
    by (simp add: push_same [OF v] ne [THEN push_other])
qed

lemma read_push_misc:
  assumes "separate_arrays scope h"
  shows "read_scope scope (push (misc scope) d h) =
    (read_scope scope h)\<lparr>misc := misc (read_scope scope h) @ [d]\<rparr>"
proof -
  from assms have v: "misc scope < length h" by (simp add: separate_arrays_def)
  from assms have ne: "classes scope \<noteq> misc scope" "functions scope \<noteq> misc scope" "interfaces scope \<noteq> misc scope" "enums scope \<noteq> misc scope" "objects scope \<noteq> misc scope"
    by (auto simp: separate_arrays_def)
  show ?thesis
    unfolding read_scope_def
    by (simp add: push_same [OF v] ne [THEN push_other])
qed

lemma read_push_objects:
  assumes "separate_arrays scope h"
  shows "read_scope scope (push (objects scope) d h) =
    (read_scope scope h)\<lparr>objects := objects (read_scope scope h) @ [d]\<rparr>"
proof -
  from assms have v: "objects scope < length h" by (simp add: separate_arrays_def)
  from assms have ne: "classes scope \<noteq> objects scope" "functions scope \<noteq> objects scope" "interfaces scope \<noteq> objects scope" "enums scope \<noteq> objects scope" "misc scope \<noteq> objects scope"
    by (auto simp: separate_arrays_def)
  show ?thesis
    unfolding read_scope_def
    by (simp add: push_same [OF v] ne [THEN push_other])
qed

lemma read_slots:
  "read_scope (scope\<lparr>setup := x\<rparr>) h = (read_scope scope h)\<lparr>setup := x\<rparr>"
  "read_scope (scope\<lparr>start := x\<rparr>) h = (read_scope scope h)\<lparr>start := x\<rparr>"
  by (simp_all add: read_scope_def)

text \<open>
  On a scope object with six different arrays, the call in place and the call on the
  scope as a value give the same scope.
\<close>

lemma separate_step_read:
  assumes "separate_arrays scope h"
  shows "scope_after d scope h = addApiDeclarationToScope d (read_scope scope h)"
  by (simp add: addApiDeclarationToScope_store_def addApiDeclarationToScope_def read_slots
      read_push_classes [OF assms] read_push_functions [OF assms]
      read_push_interfaces [OF assms] read_push_enums [OF assms] read_push_misc [OF assms]
      read_push_objects [OF assms] split: option.split TypeKind.split)

text \<open>
  C10, as the code has it. For every declaration and every scope whose six sequences are
  six different arrays, one call of \<^verbatim>\<open>addApiDeclarationToScope\<close> changes at most one field:
  it assigns the setup slot, or assigns the start slot, or appends the declaration to
  exactly one of the six sequences. Each alternative below is the scope before the call
  with that one field updated, so every other field (the other slot, the other sequences)
  is as it was.
\<close>

theorem one_call_changes_one_field:
  assumes "separate_arrays scope h"
  shows
    "scope_after d scope h = (read_scope scope h)\<lparr>setup := Some d\<rparr> \<or>
     scope_after d scope h = (read_scope scope h)\<lparr>start := Some d\<rparr> \<or>
     scope_after d scope h =
       (read_scope scope h)\<lparr>classes := classes (read_scope scope h) @ [d]\<rparr> \<or>
     scope_after d scope h =
       (read_scope scope h)\<lparr>interfaces := interfaces (read_scope scope h) @ [d]\<rparr> \<or>
     scope_after d scope h =
       (read_scope scope h)\<lparr>enums := enums (read_scope scope h) @ [d]\<rparr> \<or>
     scope_after d scope h =
       (read_scope scope h)\<lparr>functions := functions (read_scope scope h) @ [d]\<rparr> \<or>
     scope_after d scope h =
       (read_scope scope h)\<lparr>objects := objects (read_scope scope h) @ [d]\<rparr> \<or>
     scope_after d scope h =
       (read_scope scope h)\<lparr>misc := misc (read_scope scope h) @ [d]\<rparr>"
  unfolding separate_step_read [OF assms]
  by (rule addApiDeclarationToScope_cases)

text \<open>
  A scope object with the arrays at addresses 0 to 5, misc holding one declaration: a
  Class declaration is appended to classes, and nothing else changes.
\<close>

theorem one_call_changes_one_field_witness:
  "separate_arrays
     \<lparr>setup = None, start = None, classes = 0, functions = 1, interfaces = 2, enums = 3,
      misc = 4, objects = 5\<rparr>
     [[], [], [], [], [decl ''m'' None None], []] \<and>
   scope_after (decl ''c'' (Some ClassKind) None)
     \<lparr>setup = None, start = None, classes = 0, functions = 1, interfaces = 2, enums = 3,
      misc = 4, objects = 5\<rparr>
     [[], [], [], [], [decl ''m'' None None], []] =
   \<lparr>setup = None, start = None, classes = [decl ''c'' (Some ClassKind) None],
    functions = [], interfaces = [], enums = [], misc = [decl ''m'' None None],
    objects = []\<rparr>"
proof -
  let ?sc = "\<lparr>setup = None, start = None, classes = 0::nat, functions = 1::nat,
    interfaces = 2::nat, enums = 3::nat, misc = 4::nat, objects = 5::nat\<rparr>"
  let ?h = "[[], [], [], [], [decl ''m'' None None], []]"
  let ?d = "decl ''c'' (Some ClassKind) None"
  have sep: "separate_arrays ?sc ?h" by (simp add: separate_arrays_def)
  have before: "read_scope ?sc ?h =
    \<lparr>setup = None, start = None, classes = [], functions = [], interfaces = [], enums = [],
     misc = [decl ''m'' None None], objects = []\<rparr>"
    by (simp add: read_scope_def)
  have "lifecycle ?d \<noteq> Some SETUP" "lifecycle ?d \<noteq> Some START" "type ?d = Some ClassKind"
    by simp_all
  with one_call_changes_one_field [OF sep, of ?d]
  have "scope_after ?d ?sc ?h = (read_scope ?sc ?h)\<lparr>classes := classes (read_scope ?sc ?h) @ [?d]\<rparr>"
    unfolding separate_step_read [OF sep] by (simp add: addApiDeclarationToScope_def)
  then have "scope_after ?d ?sc ?h =
    \<lparr>setup = None, start = None, classes = [?d], functions = [], interfaces = [], enums = [],
     misc = [decl ''m'' None None], objects = []\<rparr>"
    unfolding before by simp
  with sep show ?thesis by blast
qed

text \<open>
  C10 as stated fails: on a scope whose classes and misc are one and the same array
  (address 0), the one \<^verbatim>\<open>push\<close> onto classes shows in misc too, so the call changes two
  fields.
\<close>

theorem shared_array_changes_two_fields:
  "classes (read_scope
     \<lparr>setup = None, start = None, classes = 0, functions = 1, interfaces = 2, enums = 3,
      misc = 0, objects = 4\<rparr> [[], [], [], [], []]) = [] \<and>
   misc (read_scope
     \<lparr>setup = None, start = None, classes = 0, functions = 1, interfaces = 2, enums = 3,
      misc = 0, objects = 4\<rparr> [[], [], [], [], []]) = [] \<and>
   classes (scope_after (decl ''c'' (Some ClassKind) None)
     \<lparr>setup = None, start = None, classes = 0, functions = 1, interfaces = 2, enums = 3,
      misc = 0, objects = 4\<rparr> [[], [], [], [], []]) = [decl ''c'' (Some ClassKind) None] \<and>
   misc (scope_after (decl ''c'' (Some ClassKind) None)
     \<lparr>setup = None, start = None, classes = 0, functions = 1, interfaces = 2, enums = 3,
      misc = 0, objects = 4\<rparr> [[], [], [], [], []]) = [decl ''c'' (Some ClassKind) None]"
  by (simp add: read_scope_def addApiDeclarationToScope_store_def push_def)

end
